theory Spec2Isabelle
  imports Main "HOL-Library.Sublist" "HOL-Library.Word"
begin

section \<open>Go library functions that docker_api.go calls\<close>

text \<open>
  Go strings are byte sequences; they are modelled as \<^typ>\<open>string\<close> (a list of
  \<^typ>\<open>char\<close>, one per byte). The functions below are those of the Go standard library that
  the file calls on strings, with the argument order of Go.
\<close>

definition backslash :: char where
  "backslash = CHR 0x5C"

text \<open>
  \<^verbatim>\<open>strings.ReplaceAll(s, old, new)\<close>: the non-overlapping occurrences of \<open>old\<close>, leftmost
  first, are replaced by \<open>new\<close>. Every call of the file passes a non-empty \<open>old\<close>; for an
  empty one Go inserts \<open>new\<close> before every character and at the end (the first branch, which
  is exact for single-byte characters).
\<close>

function strings_ReplaceAll :: "string \<Rightarrow> string \<Rightarrow> string \<Rightarrow> string" where
  "strings_ReplaceAll s old new =
     (if old = [] then new @ concat (map (\<lambda>c. c # new) s)
      else if s = [] then []
      else if take (length old) s = old
        then new @ strings_ReplaceAll (drop (length old) s) old new
      else hd s # strings_ReplaceAll (tl s) old new)"
  by pat_completeness auto
termination
  by (relation "measure (\<lambda>(s, old, new). length s)") auto

declare strings_ReplaceAll.simps [simp del]

text \<open>
  \<^verbatim>\<open>strings.Split(s, sep)\<close>: the pieces of \<open>s\<close> between the occurrences of \<open>sep\<close>; for a
  non-empty \<open>sep\<close> there is always at least one piece. \<open>genSplit\<close> carries the piece read so
  far.
\<close>

function genSplit :: "string \<Rightarrow> string \<Rightarrow> string \<Rightarrow> string list" where
  "genSplit cur s sep =
     (if s = [] then [cur]
      else if sep \<noteq> [] \<and> take (length sep) s = sep
        then cur # genSplit [] (drop (length sep) s) sep
      else genSplit (cur @ [hd s]) (tl s) sep)"
  by pat_completeness auto
termination
  by (relation "measure (\<lambda>(cur, s, sep). length s)") auto

declare genSplit.simps [simp del]

definition strings_Split :: "string \<Rightarrow> string \<Rightarrow> string list" where
  "strings_Split s sep = (if sep = [] then map (\<lambda>c. [c]) s else genSplit [] s sep)"

fun strings_Join :: "string list \<Rightarrow> string \<Rightarrow> string" where
  "strings_Join [] sep = []"
| "strings_Join [x] sep = x"
| "strings_Join (x # y # ys) sep = x @ sep @ strings_Join (y # ys) sep"

text \<open>
  \<^verbatim>\<open>strings.ToLower\<close> is only ever applied to the one-byte string \<^verbatim>\<open>path[0:1]\<close>. On an
  ASCII byte it lower-cases \<open>A\<close> to \<open>Z\<close> and keeps every other byte; a byte from 0x80 on is
  not valid UTF-8 by itself and comes back as the replacement character U+FFFD, the three
  bytes EF BF BD.
\<close>

definition utf8_RuneError :: string where
  "utf8_RuneError = [CHR 0xEF, CHR 0xBF, CHR 0xBD]"

definition strings_ToLower_byte :: "char \<Rightarrow> string" where
  "strings_ToLower_byte c =
     (let n = (of_char c :: nat) in
      if 65 \<le> n \<and> n \<le> 90 then [char_of (n + 32)]
      else if n < 128 then [c]
      else utf8_RuneError)"

section \<open>Configuration and what the file takes from outside\<close>

text \<open>The fields of \<^verbatim>\<open>config.Config\<close> that the file reads.\<close>

record Config =
  DisableDocker :: bool
  ContainerBindProjectPath :: string
  ProjectPath :: string

text \<open>\<^verbatim>\<open>types.AuthConfig\<close>, with the three fields that \<^verbatim>\<open>setPullOptions\<close> fills.\<close>

record AuthConfig =
  Username :: string
  Password :: string
  ServerAddress :: string

text \<open>
  What the file uses and does not define is taken as a parameter: \<^verbatim>\<open>filepath.Join\<close>
  (its separator and its cleaning depend on the operating system), \<^verbatim>\<open>os.Getenv\<close>,
  \<^verbatim>\<open>json.Marshal\<close> on an \<^verbatim>\<open>AuthConfig\<close>, the constant \<^verbatim>\<open>images.DefaultRegistry\<close>, and
  \<^verbatim>\<open>uuid.New().String()\<close>, which draws a fresh identifier from the state of the world
  \<open>'s\<close>.
\<close>

record 's Deps =
  filepath_Join :: "string list \<Rightarrow> string"
  os_Getenv :: "string \<Rightarrow> string"
  json_Marshal :: "AuthConfig \<Rightarrow> string"
  images_DefaultRegistry :: string
  uuid_New :: "'s \<Rightarrow> string \<times> 's"

section \<open>The mount source\<close>

text \<open>
  A Go slice expression out of range panics; the two functions return \<open>None\<close> there.
  \<^verbatim>\<open>pathSplit[0]\<close> is always in range, since \<open>strings_Split\<close> with the separator \<open>:\<close>
  returns at least one piece.
\<close>

definition getSourceFolderFromWindows :: "string \<Rightarrow> string option" where
  "getSourceFolderFromWindows path0 =
     (if length path0 < 1 then None
      else
        let partitionLower = strings_ToLower_byte (hd path0);
            pathSplit = strings_Split path0 '':'';
            pathSplit = pathSplit[0 := partitionLower];
            path = strings_Join pathSplit '':'';
            path = strings_ReplaceAll path '':'' [];
            path = ''/'' @ path;
            path = strings_ReplaceAll path [backslash] ''/'';
            path = strings_ReplaceAll path ''/'' ''//''
        in Some path)"

definition getSourceFolder :: "'s Deps \<Rightarrow> Config \<Rightarrow> string \<Rightarrow> string option" where
  "getSourceFolder x cfg analysisID =
     (let path =
        (if ContainerBindProjectPath cfg \<noteq> []
         then filepath_Join x [ContainerBindProjectPath cfg, ''.horusec'', analysisID]
         else filepath_Join x [ProjectPath cfg, ''.horusec'', analysisID])
      in
      if length path < 2 then None
      else
        let separator = take 1 (drop 1 path) in
        if separator = '':'' then getSourceFolderFromWindows path
        else Some path)"

section \<open>The container engine and the world\<close>

text \<open>
  A Go \<^verbatim>\<open>error\<close> is either made by \<^verbatim>\<open>errors.New\<close> in the file or handed over by the
  engine client. A function that returns \<^verbatim>\<open>(string, error)\<close> returns a pair here, so that
  what it returns beside an error stays visible.
\<close>

datatype error = errors_New string | EngineError string

definition ErrImageTagCmdRequired :: error where
  "ErrImageTagCmdRequired = errors_New ''image or cmd is empty''"

record ContainerConfig =
  Image_cfg :: string
  Tty :: bool
  Cmd :: "string list"
  Env :: "string list"

datatype MountType = TypeBind

datatype MountPropagation = PropagationPrivate

record Mount =
  Type_mount :: MountType
  Source :: string
  Target :: string
  BindOptions_Propagation :: MountPropagation

record HostConfig =
  Mounts :: "Mount list"

record ImagePullOptions =
  RegistryAuth :: string

text \<open>
  \<^verbatim>\<open>container.ContainerWaitOKBody\<close>: \<open>Error\<close> is the message of the optional
  \<^verbatim>\<open>ContainerWaitExitError\<close>, \<open>StatusCode\<close> an \<^verbatim>\<open>int64\<close>.
\<close>

record ContainerWaitOKBody =
  Error :: "string option"
  StatusCode :: "64 word"

text \<open>Of \<^verbatim>\<open>types.Container\<close> the file reads the \<open>ID\<close> only.\<close>

record Container =
  ID :: string

type_synonym ImageSummary = string

text \<open>
  An \<^verbatim>\<open>io.ReadCloser\<close> of the engine: \<^verbatim>\<open>io.ReadAll\<close> returns the bytes read and the
  error that stopped the reading, if any.
\<close>

record ReadCloser =
  content :: string
  read_error :: "error option"

definition io_ReadAll :: "ReadCloser \<Rightarrow> string \<times> error option" where
  "io_ReadAll r = (content r, read_error r)"

text \<open>
  The interface \<open>Client\<close>. Each operation takes the state of the engine and returns its
  result with the new state; how the engine answers is not constrained. The context
  argument is left out, the options are reduced to the fields the file sets.
  \<open>ContainerWait\<close> returns what the status channel delivers: \<open>None\<close> when nothing ever
  arrives on it (the error channel is dropped by the file).
\<close>

record 's Client =
  ContainerCreate :: "ContainerConfig \<Rightarrow> HostConfig \<Rightarrow> string \<Rightarrow> 's \<Rightarrow> (error + string) \<times> 's"
  ContainerStart :: "string \<Rightarrow> 's \<Rightarrow> error option \<times> 's"
  ContainerList :: "bool \<Rightarrow> string \<Rightarrow> 's \<Rightarrow> (error + Container list) \<times> 's"
  ContainerWait :: "string \<Rightarrow> string \<Rightarrow> 's \<Rightarrow> ContainerWaitOKBody option \<times> 's"
  ContainerLogs :: "string \<Rightarrow> bool \<Rightarrow> 's \<Rightarrow> (error + ReadCloser) \<times> 's"
  ContainerRemove :: "string \<Rightarrow> bool \<Rightarrow> 's \<Rightarrow> error option \<times> 's"
  ImageList :: "string \<Rightarrow> 's \<Rightarrow> (error + ImageSummary list) \<times> 's"
  ImagePull :: "string \<Rightarrow> ImagePullOptions \<Rightarrow> 's \<Rightarrow> (error + ReadCloser) \<times> 's"

text \<open>The calls made on the client, in the order they are made.\<close>

datatype call =
    Call_ContainerCreate ContainerConfig HostConfig string
  | Call_ContainerStart string
  | Call_ContainerList bool string
  | Call_ContainerWait string string
  | Call_ContainerLogs string bool
  | Call_ContainerRemove string bool
  | Call_ImageList string
  | Call_ImagePull string ImagePullOptions

text \<open>
  The texts of package \<open>messages\<close> are not part of the file; a logger call is recorded with
  the name of its message, the values passed with it and the error passed, if the logger
  takes one.
\<close>

datatype message =
    MsgErrorFailedToPullImage
  | MsgDebugDockerImageDoesNotExists
  | MsgDebugDockerAPIPullNewImage
  | MsgErrorDockerPullImage
  | MsgDebugDockerAPIDownloadWithSuccess
  | MsgErrorDockerListImages
  | MsgDebugDockerAPIFinishedError
  | MsgDebugDockerAPIFinishedSuccess
  | MsgDebugDockerAPIContainerWait
  | MsgDebugDockerAPIContainerRead
  | MsgErrorDockerRemoveContainer
  | MsgErrorDockerCreateContainer
  | MsgErrorDockerStartContainer
  | MsgDebugDockerAPIContainerCreated
  | MsgErrorDockerListAllContainers
  | Text string

datatype logger = LogError | LogErrorWithLevel | LogDebugWithLevel

datatype log_entry = Log logger message "string list" "error option"

record 's world =
  engine :: 's
  calls :: "call list"
  logs :: "log_entry list"

datatype 'a outcome = Returns 'a | Panics | Blocks

definition invoke :: "call \<Rightarrow> ('s \<Rightarrow> 'r \<times> 's) \<Rightarrow> 's world \<Rightarrow> 'r \<times> 's world" where
  "invoke c m w =
     (let (r, s) = m (engine w) in (r, w\<lparr>engine := s, calls := calls w @ [c]\<rparr>))"

definition logger_call :: "logger \<Rightarrow> message \<Rightarrow> string list \<Rightarrow> error option \<Rightarrow> 's world \<Rightarrow> 's world" where
  "logger_call l m args err w = w\<lparr>logs := logs w @ [Log l m args err]\<rparr>"

text \<open>
  The struct \<open>API\<close>. The context is left out; so is the mutex: the model runs one
  invocation at a time, where the \<^verbatim>\<open>Lock\<close> and the deferred \<^verbatim>\<open>Unlock\<close> around the image
  listing have no effect. \<open>analysisID\<close> is the identifier in its string form.
\<close>

record 's API =
  dockerClient :: "'s Client"
  config :: Config
  analysisID :: string
  pathDestinyInContainer :: string

definition New :: "'s Client \<Rightarrow> Config \<Rightarrow> string \<Rightarrow> 's API" where
  "New client cfg analysisID' =
     \<lparr>dockerClient = client, config = cfg, analysisID = analysisID',
      pathDestinyInContainer = ''/src''\<rparr>"

section \<open>More library functions\<close>

text \<open>\<^verbatim>\<open>strconv.Itoa\<close>: decimal digits, with a minus sign before a negative number.\<close>

function decimal :: "nat \<Rightarrow> string" where
  "decimal n =
     (if n < 10 then [char_of (48 + n)]
      else decimal (n div 10) @ [char_of (48 + n mod 10)])"
  by pat_completeness auto
termination
  by (relation "measure id") auto

declare decimal.simps [simp del]

definition strconv_Itoa :: "int \<Rightarrow> string" where
  "strconv_Itoa i = (if i < 0 then CHR ''-'' # decimal (nat (- i)) else decimal (nat i))"

text \<open>
  \<^verbatim>\<open>base64.URLEncoding.EncodeToString\<close>: three bytes become four characters of the URL
  alphabet, a last group of one or two bytes is padded with \<open>=\<close>.
\<close>

definition encodeURL :: string where
  "encodeURL = ''ABCDEFGHIJKLMNOPQRSTUVWXYZabcdefghijklmnopqrstuvwxyz0123456789-_''"

fun base64_encode :: "nat list \<Rightarrow> string" where
  "base64_encode (a # b # c # rest) =
     [encodeURL ! (a div 4), encodeURL ! ((a mod 4) * 16 + b div 16),
      encodeURL ! ((b mod 16) * 4 + c div 64), encodeURL ! (c mod 64)] @ base64_encode rest"
| "base64_encode [a, b] =
     [encodeURL ! (a div 4), encodeURL ! ((a mod 4) * 16 + b div 16),
      encodeURL ! ((b mod 16) * 4), CHR ''='']"
| "base64_encode [a] =
     [encodeURL ! (a div 4), encodeURL ! ((a mod 4) * 16), CHR ''='', CHR ''='']"
| "base64_encode [] = []"

definition base64_URLEncoding_EncodeToString :: "string \<Rightarrow> string" where
  "base64_URLEncoding_EncodeToString src = base64_encode (map of_char src)"

text \<open>
  \<^verbatim>\<open>env.GetEnvOrDefault\<close> of the devkit: the value of the variable, or the default when the
  variable is empty or not set.
\<close>

definition env_GetEnvOrDefault :: "'s Deps \<Rightarrow> string \<Rightarrow> string \<Rightarrow> string" where
  "env_GetEnvOrDefault x name defaultValue =
     (let v = os_Getenv x name in if v = [] then defaultValue else v)"

section \<open>Pulling images\<close>

definition loggerAPIStatus :: "'s API \<Rightarrow> message \<Rightarrow> string \<Rightarrow> 's world \<Rightarrow> 's world" where
  "loggerAPIStatus d m imageNameWithTag w =
     logger_call LogDebugWithLevel m [imageNameWithTag, analysisID d] None w"

definition loggerAPIStatusWithContainerID ::
    "'s API \<Rightarrow> message \<Rightarrow> string \<Rightarrow> string \<Rightarrow> 's world \<Rightarrow> 's world" where
  "loggerAPIStatusWithContainerID d m imageNameWithTag containerID w =
     logger_call LogDebugWithLevel m [imageNameWithTag, containerID, analysisID d] None w"

definition removeRegistry :: "'s Deps \<Rightarrow> string \<Rightarrow> string" where
  "removeRegistry x imageWithTagAndRegistry =
     strings_ReplaceAll imageWithTagAndRegistry (images_DefaultRegistry x @ ''/'') []"

definition checkIfImageNotExists ::
    "'s Deps \<Rightarrow> 's API \<Rightarrow> string \<Rightarrow> 's world \<Rightarrow> (bool \<times> error option) \<times> 's world" where
  "checkIfImageNotExists x d imageWithTagAndRegistry w =
     (let reference = removeRegistry x imageWithTagAndRegistry;
          (res, w) = invoke (Call_ImageList reference) (ImageList (dockerClient d) reference) w
      in case res of
           Inl err \<Rightarrow>
             let w = logger_call LogErrorWithLevel MsgErrorDockerListImages [] (Some err) w
             in ((False, Some err), w)
         | Inr result \<Rightarrow> ((length result = 0, None), w))"

definition setPullOptions :: "'s Deps \<Rightarrow> ImagePullOptions" where
  "setPullOptions x =
     (let authConfig =
        \<lparr>Username = env_GetEnvOrDefault x ''HORUSEC_CLI_REGISTRY_USERNAME'' [],
         Password = env_GetEnvOrDefault x ''HORUSEC_CLI_REGISTRY_PASSWORD'' [],
         ServerAddress = env_GetEnvOrDefault x ''HORUSEC_CLI_REGISTRY_ADDRESS'' []\<rparr>
      in
      if Username authConfig \<noteq> [] \<and> Password authConfig \<noteq> [] then
        let encodedAuthConfig = json_Marshal x authConfig
        in \<lparr>RegistryAuth = base64_URLEncoding_EncodeToString encodedAuthConfig\<rparr>
      else \<lparr>RegistryAuth = []\<rparr>)"

definition readPullReader ::
    "'s API \<Rightarrow> string \<Rightarrow> ReadCloser \<Rightarrow> 's world \<Rightarrow> error option \<times> 's world" where
  "readPullReader d imageWithTagAndRegistry reader w =
     (let (readResult, err) = io_ReadAll reader in
      case err of
        Some e \<Rightarrow>
          let w = logger_call LogErrorWithLevel MsgErrorDockerPullImage [] (Some e) w;
              w = logger_call LogDebugWithLevel (Text readResult) [] None w
          in (Some e, w)
      | None \<Rightarrow>
          let w = loggerAPIStatus d MsgDebugDockerAPIDownloadWithSuccess imageWithTagAndRegistry w
          in (None, w))"

definition downloadImage ::
    "'s Deps \<Rightarrow> 's API \<Rightarrow> string \<Rightarrow> 's world \<Rightarrow> error option \<times> 's world" where
  "downloadImage x d imageWithTagAndRegistry w =
     (let w = loggerAPIStatus d MsgDebugDockerAPIPullNewImage imageWithTagAndRegistry w;
          options = setPullOptions x;
          (res, w) = invoke (Call_ImagePull imageWithTagAndRegistry options)
                       (ImagePull (dockerClient d) imageWithTagAndRegistry options) w
      in case res of
           Inl err \<Rightarrow>
             let w = logger_call LogErrorWithLevel MsgErrorDockerPullImage [] (Some err) w
             in (Some err, w)
         | Inr reader \<Rightarrow> readPullReader d imageWithTagAndRegistry reader w)"

definition PullImage ::
    "'s Deps \<Rightarrow> 's API \<Rightarrow> string \<Rightarrow> 's world \<Rightarrow> error option \<times> 's world" where
  "PullImage x d imageWithTagAndRegistry w =
     (if DisableDocker (config d) then (None, w)
      else
        let ((imageNotExist, err), w) = checkIfImageNotExists x d imageWithTagAndRegistry w in
        if err \<noteq> None then
          let w = logger_call LogError MsgErrorFailedToPullImage [imageWithTagAndRegistry] err w
          in (err, w)
        else if imageNotExist then
          let w = logger_call LogDebugWithLevel MsgDebugDockerImageDoesNotExists
                    [imageWithTagAndRegistry] None w;
              (err, w) = downloadImage x d imageWithTagAndRegistry w;
              w = logger_call LogError MsgErrorFailedToPullImage [imageWithTagAndRegistry] err w
          in (err, w)
        else (None, w))"

section \<open>Running one container\<close>

text \<open>
  Modelled from the spec: the type \<^verbatim>\<open>docker.AnalysisData\<close> and its methods
  \<^verbatim>\<open>IsInvalid\<close> and \<^verbatim>\<open>GetCustomOrDefaultImage\<close> live in another package. The spec's
  tool invocation has an image reference and a command template, and is invalid if either
  is empty.
\<close>

record AnalysisData =
  ImageReference :: string
  CMD :: string

definition IsInvalid :: "AnalysisData \<Rightarrow> bool" where
  "IsInvalid data \<longleftrightarrow> ImageReference data = [] \<or> CMD data = []"

definition GetCustomOrDefaultImage :: "AnalysisData \<Rightarrow> string" where
  "GetCustomOrDefaultImage data = ImageReference data"

definition replaceCMDAnalysisID :: "'s API \<Rightarrow> string \<Rightarrow> string" where
  "replaceCMDAnalysisID d cmd = strings_ReplaceAll cmd ''ANALYSISID'' (analysisID d)"

definition getContainerConfig :: "'s Deps \<Rightarrow> 's API \<Rightarrow> string \<Rightarrow> string \<Rightarrow> ContainerConfig" where
  "getContainerConfig x d imageNameWithTag cmd =
     \<lparr>Image_cfg = imageNameWithTag,
      Tty = True,
      Cmd = [''/bin/sh'', ''-c'', ''cd '' @ pathDestinyInContainer d @ '' && '' @ cmd],
      Env = [''GITHUB_TOKEN='' @ os_Getenv x ''GITHUB_TOKEN'']\<rparr>"

definition getContainerHostConfig :: "'s Deps \<Rightarrow> 's API \<Rightarrow> HostConfig option" where
  "getContainerHostConfig x d =
     (case getSourceFolder x (config d) (analysisID d) of
        None \<Rightarrow> None
      | Some source \<Rightarrow>
          Some \<lparr>Mounts = [\<lparr>Type_mount = TypeBind, Source = source,
                           Target = pathDestinyInContainer d,
                           BindOptions_Propagation = PropagationPrivate\<rparr>]\<rparr>)"

definition getContainerAndHostConfig ::
    "'s Deps \<Rightarrow> 's API \<Rightarrow> string \<Rightarrow> string \<Rightarrow> (ContainerConfig \<times> HostConfig) option" where
  "getContainerAndHostConfig x d imageNameWithTag cmd =
     (let cfg = getContainerConfig x d imageNameWithTag cmd in
      case getContainerHostConfig x d of
        None \<Rightarrow> None
      | Some host \<Rightarrow> Some (cfg, host))"

definition getImageID :: "'s Deps \<Rightarrow> 's API \<Rightarrow> 's world \<Rightarrow> string \<times> 's world" where
  "getImageID x d w =
     (let (u, s) = uuid_New x (engine w) in (analysisID d @ ''-'' @ u, w\<lparr>engine := s\<rparr>))"

definition createContainer ::
    "'s Deps \<Rightarrow> 's API \<Rightarrow> string \<Rightarrow> string \<Rightarrow> 's world \<Rightarrow>
       ((string \<times> error option) \<times> 's world) outcome" where
  "createContainer x d imageNameWithTag cmd w =
     (case getContainerAndHostConfig x d imageNameWithTag cmd of
        None \<Rightarrow> Panics
      | Some (cfg, host) \<Rightarrow>
          let (name, w) = getImageID x d w;
              (response, w) = invoke (Call_ContainerCreate cfg host name)
                                (ContainerCreate (dockerClient d) cfg host name) w
          in (case response of
                Inl err \<Rightarrow>
                  let w = logger_call LogErrorWithLevel MsgErrorDockerCreateContainer [] (Some err) w
                  in Returns (([], Some err), w)
              | Inr response_ID \<Rightarrow>
                  let (err, w) = invoke (Call_ContainerStart response_ID)
                                   (ContainerStart (dockerClient d) response_ID) w
                  in if err \<noteq> None then
                       let w = logger_call LogErrorWithLevel MsgErrorDockerStartContainer [] err w
                       in Returns (([], err), w)
                     else
                       let w = loggerAPIStatusWithContainerID d MsgDebugDockerAPIContainerCreated
                                 imageNameWithTag response_ID w
                       in Returns ((response_ID, None), w)))"

definition readOutputAsString :: "ReadCloser \<Rightarrow> string \<times> error option" where
  "readOutputAsString output =
     (let (b, err) = io_ReadAll output in
      if err \<noteq> None then ([], err) else (b, err))"

text \<open>
  The receive on the status channel blocks until the engine delivers a value; the
  conversion \<^verbatim>\<open>int(StatusCode)\<close> is that of a platform with 64-bit \<^verbatim>\<open>int\<close>.
\<close>

definition readContainer ::
    "'s API \<Rightarrow> string \<Rightarrow> 's world \<Rightarrow> ((string \<times> error option) \<times> 's world) outcome" where
  "readContainer d containerID w =
     (let (chanContainerStatus, w) = invoke (Call_ContainerWait containerID [])
                                      (ContainerWait (dockerClient d) containerID []) w
      in case chanContainerStatus of
           None \<Rightarrow> Blocks
         | Some containerWaitStatus \<Rightarrow>
             (case Error containerWaitStatus of
                Some Error_Message \<Rightarrow>
                  let message = ''Error on wait container '' @ containerID @ '': '' @ Error_Message
                        @ '' | Exited with status ''
                        @ strconv_Itoa (sint (StatusCode containerWaitStatus))
                  in Returns (([], Some (errors_New message)), w)
              | None \<Rightarrow>
                  let (res, w) = invoke (Call_ContainerLogs containerID True)
                                   (ContainerLogs (dockerClient d) containerID True) w
                  in (case res of
                        Inl err \<Rightarrow> Returns (([], Some err), w)
                      | Inr containerOutput \<Rightarrow>
                          Returns (readOutputAsString containerOutput, w))))"

definition removeContainer :: "'s API \<Rightarrow> string \<Rightarrow> 's world \<Rightarrow> 's world" where
  "removeContainer d containerID w =
     (let (err, w) = invoke (Call_ContainerRemove containerID True)
                       (ContainerRemove (dockerClient d) containerID True) w
      in logger_call LogErrorWithLevel MsgErrorDockerRemoveContainer [] err w)"

definition executeCRDContainer ::
    "'s Deps \<Rightarrow> 's API \<Rightarrow> string \<Rightarrow> string \<Rightarrow> 's world \<Rightarrow>
       ((string \<times> error option) \<times> 's world) outcome" where
  "executeCRDContainer x d imageNameWithTag cmd w =
     (case createContainer x d imageNameWithTag cmd w of
        Panics \<Rightarrow> Panics
      | Blocks \<Rightarrow> Blocks
      | Returns ((containerID, err), w) \<Rightarrow>
          if err \<noteq> None then Returns (([], err), w)
          else
            let w = loggerAPIStatusWithContainerID d MsgDebugDockerAPIContainerWait
                      imageNameWithTag containerID w
            in (case readContainer d containerID w of
                  Panics \<Rightarrow> Panics
                | Blocks \<Rightarrow> Blocks
                | Returns ((containerOutput, err), w) \<Rightarrow>
                    if err \<noteq> None then Returns (([], err), w)
                    else
                      let w = loggerAPIStatus d MsgDebugDockerAPIContainerRead imageNameWithTag w;
                          w = removeContainer d containerID w
                      in Returns ((containerOutput, None), w)))"

definition logStatusAndExecuteCRDContainer ::
    "'s Deps \<Rightarrow> 's API \<Rightarrow> string \<Rightarrow> string \<Rightarrow> 's world \<Rightarrow>
       ((string \<times> error option) \<times> 's world) outcome" where
  "logStatusAndExecuteCRDContainer x d imageNameWithTag cmd w =
     (case executeCRDContainer x d imageNameWithTag cmd w of
        Panics \<Rightarrow> Panics
      | Blocks \<Rightarrow> Blocks
      | Returns ((containerOutput, err), w) \<Rightarrow>
          if err \<noteq> None then
            let w = loggerAPIStatus d MsgDebugDockerAPIFinishedError imageNameWithTag w
            in Returns (([], err), w)
          else
            let w = loggerAPIStatus d MsgDebugDockerAPIFinishedSuccess imageNameWithTag w
            in Returns ((containerOutput, None), w))"

definition CreateLanguageAnalysisContainer ::
    "'s Deps \<Rightarrow> 's API \<Rightarrow> AnalysisData \<Rightarrow> 's world \<Rightarrow>
       ((string \<times> error option) \<times> 's world) outcome" where
  "CreateLanguageAnalysisContainer x d data w =
     (if IsInvalid data then Returns (([], Some ErrImageTagCmdRequired), w)
      else logStatusAndExecuteCRDContainer x d (GetCustomOrDefaultImage data)
             (replaceCMDAnalysisID d (CMD data)) w)"

section \<open>Cleaning up a run\<close>

definition listContainersByAnalysisID ::
    "'s API \<Rightarrow> 's world \<Rightarrow> (error + Container list) \<times> 's world" where
  "listContainersByAnalysisID d w =
     invoke (Call_ContainerList True (analysisID d))
       (ContainerList (dockerClient d) True (analysisID d)) w"

text \<open>The loop over the containers that the engine listed.\<close>

fun removeEach :: "'s API \<Rightarrow> Container list \<Rightarrow> 's world \<Rightarrow> 's world" where
  "removeEach d [] w = w"
| "removeEach d (c # containers) w =
     (let (err, w) = invoke (Call_ContainerRemove (ID c) True)
                       (ContainerRemove (dockerClient d) (ID c) True) w;
          w = logger_call LogErrorWithLevel MsgErrorDockerRemoveContainer [] err w
      in removeEach d containers w)"

definition DeleteContainersFromAPI :: "'s API \<Rightarrow> 's world \<Rightarrow> 's world" where
  "DeleteContainersFromAPI d w =
     (let (res, w) = listContainersByAnalysisID d w in
      case res of
        Inl err \<Rightarrow> logger_call LogErrorWithLevel MsgErrorDockerListAllContainers [] (Some err) w
      | Inr containers \<Rightarrow> removeEach d containers w)"

section \<open>Notions used in the statements\<close>

text \<open>
  The joined per-run path: the base (the alternate bind root when it is set,
  the project path otherwise), the segment \<open>.horusec\<close> and the run identifier, joined.
\<close>

definition perRunPath :: "'s Deps \<Rightarrow> Config \<Rightarrow> string \<Rightarrow> string" where
  "perRunPath x cfg runID =
     filepath_Join x
       [if ContainerBindProjectPath cfg \<noteq> [] then ContainerBindProjectPath cfg
        else ProjectPath cfg, ''.horusec'', runID]"

definition isLetter :: "char \<Rightarrow> bool" where
  "isLetter c \<longleftrightarrow>
     (65 \<le> (of_char c :: nat) \<and> (of_char c :: nat) \<le> 90) \<or>
     (97 \<le> (of_char c :: nat) \<and> (of_char c :: nat) \<le> 122)"

text \<open>The text of an error, as \<^verbatim>\<open>Error()\<close> gives it.\<close>

fun error_text :: "error \<Rightarrow> string" where
  "error_text (errors_New m) = m"
| "error_text (EngineError m) = m"

text \<open>
  The reading of the image filter in which only a leading default-registry qualifier is
  stripped and the rest of the reference is left as it is.
\<close>

definition stripLeadingRegistry :: "string \<Rightarrow> string \<Rightarrow> string" where
  "stripLeadingRegistry registry ref =
     (if prefix (registry @ ''/'') ref then drop (length registry + 1) ref else ref)"

section \<open>A scripted engine for concrete runs\<close>

text \<open>
  An engine that answers every call with a fixed result and counts the calls it has
  served. It stands for the engine in the concrete runs at the end of the theory.
\<close>

record script =
  create_result :: "error + string"
  start_result :: "error option"
  list_result :: "error + Container list"
  wait_result :: "ContainerWaitOKBody option"
  logs_result :: "error + ReadCloser"
  remove_result :: "error option"
  images_result :: "error + ImageSummary list"
  pull_result :: "error + ReadCloser"

definition scriptedClient :: "script \<Rightarrow> nat Client" where
  "scriptedClient sc =
     \<lparr>ContainerCreate = (\<lambda>cfg host name n. (create_result sc, Suc n)),
      ContainerStart = (\<lambda>containerID n. (start_result sc, Suc n)),
      ContainerList = (\<lambda>all name n. (list_result sc, Suc n)),
      ContainerWait = (\<lambda>containerID condition n. (wait_result sc, Suc n)),
      ContainerLogs = (\<lambda>containerID showStdout n. (logs_result sc, Suc n)),
      ContainerRemove = (\<lambda>containerID force n. (remove_result sc, Suc n)),
      ImageList = (\<lambda>reference n. (images_result sc, Suc n)),
      ImagePull = (\<lambda>ref options n. (pull_result sc, Suc n))\<rparr>"

definition cleanRun :: script where
  "cleanRun =
     \<lparr>create_result = Inr ''c0ffee'',
      start_result = None,
      list_result = Inr [\<lparr>ID = ''c0ffee''\<rparr>, \<lparr>ID = ''decaf''\<rparr>],
      wait_result = Some \<lparr>Error = None, StatusCode = 0\<rparr>,
      logs_result = Inr \<lparr>content = ''{}'', read_error = None\<rparr>,
      remove_result = None,
      images_result = Inr [],
      pull_result = Inr \<lparr>content = ''done'', read_error = None\<rparr>\<rparr>"

text \<open>
  \<open>joinWith\<close> is what \<^verbatim>\<open>filepath.Join\<close> returns on elements that need no cleaning: the
  non-empty elements with the separator of the platform between them. \<open>marshalAuth\<close> is
  the JSON text of an \<^verbatim>\<open>AuthConfig\<close> whose strings need no escaping.
\<close>

definition joinWith :: "string \<Rightarrow> string list \<Rightarrow> string" where
  "joinWith sep elems = strings_Join (filter (\<lambda>e. e \<noteq> []) elems) sep"

definition quoted :: "string \<Rightarrow> string" where
  "quoted v = CHR 0x22 # v @ [CHR 0x22]"

definition marshalAuth :: "AuthConfig \<Rightarrow> string" where
  "marshalAuth a =
     ''{'' @ quoted ''username'' @ '':'' @ quoted (Username a)
       @ '','' @ quoted ''password'' @ '':'' @ quoted (Password a)
       @ (if ServerAddress a = [] then []
          else '','' @ quoted ''serveraddress'' @ '':'' @ quoted (ServerAddress a))
       @ ''}''"

definition hostDeps :: "string \<Rightarrow> (string \<Rightarrow> string) \<Rightarrow> nat Deps" where
  "hostDeps sep getenv =
     \<lparr>filepath_Join = joinWith sep,
      os_Getenv = getenv,
      json_Marshal = marshalAuth,
      images_DefaultRegistry = ''docker.io/horuszup'',
      uuid_New = (\<lambda>n. (''7d444840-9dc0-11d1-b245-5ffdce74fad2'', n))\<rparr>"

definition noEnv :: "string \<Rightarrow> string" where
  "noEnv name = []"


definition demoRunID :: string where
  "demoRunID = ''1b9d6bcd-bbfd-4b2d-9b5d-ab8dfbbd4bed''"

definition linuxConfig :: Config where
  "linuxConfig =
     \<lparr>DisableDocker = False, ContainerBindProjectPath = [], ProjectPath = ''/home/dev/app''\<rparr>"

definition windowsConfig :: Config where
  "windowsConfig =
     \<lparr>DisableDocker = False, ContainerBindProjectPath = [],
      ProjectPath = ''C:'' @ [backslash] @ ''Users'' @ [backslash] @ ''dev''\<rparr>"

definition world0 :: "nat world" where
  "world0 = \<lparr>engine = 0, calls = [], logs = []\<rparr>"

definition bindConfig :: Config where
  "bindConfig =
     \<lparr>DisableDocker = False, ContainerBindProjectPath = ''/builds/app'',
      ProjectPath = ''/home/dev/app''\<rparr>"

definition disabledConfig :: Config where
  "disabledConfig =
     \<lparr>DisableDocker = True, ContainerBindProjectPath = [], ProjectPath = ''/home/dev/app''\<rparr>"

definition demoAPI :: "script \<Rightarrow> Config \<Rightarrow> nat API" where
  "demoAPI sc cfg = New (scriptedClient sc) cfg demoRunID"

definition demoImage :: string where
  "demoImage = ''docker.io/horuszup/horusec-go:v1.0.0''"

definition cachedRun :: script where
  "cachedRun = cleanRun\<lparr>images_result := Inr [''sha256:5b0bcabd1ed2'']\<rparr>"

definition listFails :: script where
  "listFails = cleanRun\<lparr>images_result := Inl (EngineError ''connection refused''),
                         list_result := Inl (EngineError ''connection refused'')\<rparr>"

definition mirrorImage :: string where
  "mirrorImage = ''mirror.example.org/docker.io/horuszup/horusec-go:v1.0.0''"

definition demoData :: AnalysisData where
  "demoData = \<lparr>ImageReference = ''horuszup/horusec-go:v1.0.0'', CMD = ''gosec -out=ANALYSISID.json''\<rparr>"

definition waitFails :: script where
  "waitFails = cleanRun\<lparr>wait_result := Some \<lparr>Error = Some ''OOMKilled'', StatusCode = 137\<rparr>\<rparr>"

definition logReadFails :: script where
  "logReadFails =
     cleanRun\<lparr>logs_result :=
       Inr \<lparr>content = ''{ Issues: [ { severity'', read_error = Some (EngineError ''unexpected EOF'')\<rparr>\<rparr>"

text \<open>What an invocation returned, if it returned.\<close>

fun returned :: "'a outcome \<Rightarrow> 'a option" where
  "returned (Returns a) = Some a"
| "returned Panics = None"
| "returned Blocks = None"

definition result_of :: "('a \<times> 's world) outcome \<Rightarrow> 'a option" where
  "result_of r = map_option fst (returned r)"

definition calls_of :: "('a \<times> 's world) outcome \<Rightarrow> call list option" where
  "calls_of r = map_option (\<lambda>p. calls (snd p)) (returned r)"

text \<open>The name of the client operation of a call.\<close>

fun called :: "call \<Rightarrow> string" where
  "called (Call_ContainerCreate cfg host name) = ''ContainerCreate''"
| "called (Call_ContainerStart containerID) = ''ContainerStart''"
| "called (Call_ContainerList all name) = ''ContainerList''"
| "called (Call_ContainerWait containerID condition) = ''ContainerWait''"
| "called (Call_ContainerLogs containerID showStdout) = ''ContainerLogs''"
| "called (Call_ContainerRemove containerID force) = ''ContainerRemove''"
| "called (Call_ImageList reference) = ''ImageList''"
| "called (Call_ImagePull ref options) = ''ImagePull''"

definition startFails :: script where
  "startFails = cleanRun\<lparr>start_result := Some (EngineError ''no such image'')\<rparr>"

section \<open>Facts about the string functions\<close>

lemma ReplaceAll_Nil: "old \<noteq> [] \<Longrightarrow> strings_ReplaceAll [] old new = []"
  by (subst strings_ReplaceAll.simps) simp

lemma ReplaceAll_char_Cons:
  "strings_ReplaceAll (a # s) [c] new =
     (if a = c then new @ strings_ReplaceAll s [c] new else a # strings_ReplaceAll s [c] new)"
  by (subst strings_ReplaceAll.simps) simp

lemma ReplaceAll_char:
  "strings_ReplaceAll s [c] new = concat (map (\<lambda>a. if a = c then new else [a]) s)"
  by (induction s) (simp_all add: ReplaceAll_Nil ReplaceAll_char_Cons)

lemma ReplaceAll_remove_char:
  "strings_ReplaceAll s [c] [] = filter (\<lambda>a. a \<noteq> c) s"
  by (induction s) (simp_all add: ReplaceAll_char)

lemma ReplaceAll_char_char:
  "strings_ReplaceAll s [c] [e] = map (\<lambda>a. if a = c then e else a) s"
  by (induction s) (simp_all add: ReplaceAll_char)

lemma genSplit_Nil: "genSplit cur [] sep = [cur]"
  by (subst genSplit.simps) simp

lemma genSplit_char_Cons:
  "genSplit cur (a # s) [c] =
     (if a = c then cur # genSplit [] s [c] else genSplit (cur @ [a]) s [c])"
  by (subst genSplit.simps) simp

lemma genSplit_not_Nil: "genSplit cur s [c] \<noteq> []"
  by (induction s arbitrary: cur) (simp_all add: genSplit_Nil genSplit_char_Cons)

lemma Join_Cons: "xs \<noteq> [] \<Longrightarrow> strings_Join (x # xs) sep = x @ sep @ strings_Join xs sep"
  by (cases xs) simp_all

lemma Join_genSplit: "strings_Join (genSplit cur s [c]) [c] = cur @ s"
proof (induction s arbitrary: cur)
  case Nil
  show ?case by (simp add: genSplit_Nil)
next
  case (Cons a s)
  show ?case
    by (simp add: genSplit_char_Cons Join_Cons genSplit_not_Nil Cons.IH)
qed

text \<open>
  Splitting at \<open>c\<close>, replacing the first piece by \<open>p\<close> and joining again with \<open>c\<close> puts
  \<open>p\<close> in the place of everything before the first \<open>c\<close>.
\<close>

lemma Join_genSplit_update:
  "strings_Join ((genSplit cur s [c])[0 := p]) [c] = p @ dropWhile (\<lambda>a. a \<noteq> c) s"
proof (induction s arbitrary: cur)
  case Nil
  show ?case by (simp add: genSplit_Nil)
next
  case (Cons a s)
  show ?case
  proof (cases "a = c")
    case True
    then show ?thesis
      by (simp add: genSplit_char_Cons Join_Cons genSplit_not_Nil Join_genSplit)
  next
    case False
    then show ?thesis
      by (simp add: genSplit_char_Cons Cons.IH)
  qed
qed

lemma getSourceFolderFromWindows_eq:
  assumes "path \<noteq> []"
  shows "getSourceFolderFromWindows path =
    Some (concat (map (\<lambda>a. if a = CHR ''/'' then ''//'' else [a])
           (map (\<lambda>a. if a = backslash then CHR ''/'' else a)
             (CHR ''/'' # filter (\<lambda>a. a \<noteq> CHR '':'')
                (strings_ToLower_byte (hd path) @ dropWhile (\<lambda>a. a \<noteq> CHR '':'') path)))))"
proof -
  have "strings_ReplaceAll s ''/'' ''//'' =
      concat (map (\<lambda>a. if a = CHR ''/'' then ''//'' else [a]) s)" for s
    by (rule ReplaceAll_char)
  with assms show ?thesis
    by (simp add: getSourceFolderFromWindows_def Let_def strings_Split_def Join_genSplit_update
        ReplaceAll_remove_char ReplaceAll_char_char del: map_map)
qed

section \<open>The mount source: properties\<close>

lemma getSourceFolder_perRunPath:
  "getSourceFolder x cfg runID =
     (let path = perRunPath x cfg runID in
      if length path < 2 then None
      else if path ! 1 = CHR '':'' then getSourceFolderFromWindows path else Some path)"
proof -
  have "take 1 (drop 1 p) = '':'' \<longleftrightarrow> p ! 1 = CHR '':''" if "\<not> length p < 2" for p :: string
    using that by (cases p; cases "tl p") auto
  then show ?thesis
    by (auto simp add: getSourceFolder_def perRunPath_def Let_def)
qed

lemma ToLower_byte_letter:
  assumes "isLetter c"
  shows "strings_ToLower_byte c =
     [if (of_char c :: nat) \<le> 90 then char_of ((of_char c :: nat) + 32) else c]"
  using assms by (auto simp add: strings_ToLower_byte_def isLetter_def Let_def)

lemma of_char_lowered:
  assumes "65 \<le> (of_char c :: nat)" and "(of_char c :: nat) \<le> 90"
  shows "(of_char (char_of ((of_char c :: nat) + 32)) :: nat) = of_char c + 32"
  using assms by simp

lemma lowered_is_plain:
  assumes "65 \<le> (of_char c :: nat)" and "(of_char c :: nat) \<le> 90"
  shows "char_of ((of_char c :: nat) + 32) \<noteq> CHR ''/''"
    and "char_of ((of_char c :: nat) + 32) \<noteq> CHR 0x5C"
    and "char_of ((of_char c :: nat) + 32) \<noteq> CHR '':''"
proof -
  let ?l = "char_of ((of_char c :: nat) + 32)"
  have l: "(of_char ?l :: nat) = of_char c + 32"
    using assms by (rule of_char_lowered)
  show "?l \<noteq> CHR ''/''"
  proof
    assume "?l = CHR ''/''"
    then have "(of_char ?l :: nat) = of_char (CHR ''/'')" by (rule arg_cong)
    with l assms show False by simp
  qed
  show "?l \<noteq> CHR 0x5C"
  proof
    assume "?l = CHR 0x5C"
    then have "(of_char ?l :: nat) = of_char (CHR 0x5C)" by (rule arg_cong)
    with l assms show False by simp
  qed
  show "?l \<noteq> CHR '':''"
  proof
    assume "?l = CHR '':''"
    then have "(of_char ?l :: nat) = of_char (CHR '':'')" by (rule arg_cong)
    with l assms show False by simp
  qed
qed

lemma ToLower_byte_plain:
  "CHR ''/'' \<in> set (strings_ToLower_byte c) \<Longrightarrow> c = CHR ''/''"
  "backslash \<in> set (strings_ToLower_byte c) \<Longrightarrow> c = backslash"
  "CHR '':'' \<in> set (strings_ToLower_byte c) \<Longrightarrow> c = CHR '':''"
  using lowered_is_plain [of c]
  by (auto simp add: strings_ToLower_byte_def Let_def utf8_RuneError_def backslash_def
      split: if_splits)

lemma rewritten_props:
  fixes body :: string
  defines "r \<equiv> concat (map (\<lambda>a. if a = CHR ''/'' then ''//'' else [a])
           (map (\<lambda>a. if a = backslash then CHR ''/'' else a)
             (CHR ''/'' # filter (\<lambda>a. a \<noteq> CHR '':'') body)))"
  shows "CHR '':'' \<notin> set r" and "backslash \<notin> set r" and "take 2 r = ''//''"
  by (auto simp add: r_def backslash_def)

lemma rewritten_letter:
  assumes "isLetter c"
  shows "concat (map (\<lambda>a. if a = CHR ''/'' then ''//'' else [a])
           (map (\<lambda>a. if a = backslash then CHR ''/'' else a)
             (CHR ''/'' # filter (\<lambda>a. a \<noteq> CHR '':'') (strings_ToLower_byte c @ rest)))) ! 2
         = (if (of_char c :: nat) \<le> 90 then char_of ((of_char c :: nat) + 32) else c)"
proof -
  have "c \<noteq> CHR ''/''" "c \<noteq> backslash" "c \<noteq> CHR '':''"
    using assms by (auto simp add: isLetter_def backslash_def)
  moreover have "strings_ToLower_byte c =
     [if (of_char c :: nat) \<le> 90 then char_of ((of_char c :: nat) + 32) else c]"
    using assms by (rule ToLower_byte_letter)
  ultimately show ?thesis
    using ToLower_byte_plain [of c] by (auto split: if_splits)
qed


text \<open>
  C2: when the joined per-run path has \<open>:\<close> as its second character, \<open>getSourceFolder\<close>
  returns the path rewritten: a leading slash, the first character lower-cased, every
  colon dropped, every backslash turned into a slash, and then every slash doubled. The
  result has no colon and no backslash, starts with two slashes (the doubled leading
  slash), and a drive letter comes third, in lower case. A joined path whose second
  character is not \<open>:\<close> is returned as it is.
\<close>

theorem getSourceFolder_drive_letter_rewrite:
  assumes "perRunPath x cfg runID = p" and "2 \<le> length p"
  shows "(p ! 1 = CHR '':'' \<longrightarrow>
           (\<exists>r. getSourceFolder x cfg runID = Some r
              \<and> r = concat (map (\<lambda>a. if a = CHR ''/'' then ''//'' else [a])
                      (map (\<lambda>a. if a = backslash then CHR ''/'' else a)
                        (CHR ''/'' # filter (\<lambda>a. a \<noteq> CHR '':'')
                           (strings_ToLower_byte (hd p) @ drop 2 p))))
              \<and> CHR '':'' \<notin> set r \<and> backslash \<notin> set r \<and> take 2 r = ''//''
              \<and> (isLetter (hd p) \<longrightarrow>
                   r ! 2 = (if (of_char (hd p) :: nat) \<le> 90
                            then char_of ((of_char (hd p) :: nat) + 32) else hd p))))
       \<and> (p ! 1 \<noteq> CHR '':'' \<longrightarrow> getSourceFolder x cfg runID = Some p)"
proof (intro conjI impI)
  assume "p ! 1 \<noteq> CHR '':''"
  with assms show "getSourceFolder x cfg runID = Some p"
    by (simp add: getSourceFolder_perRunPath)
next
  assume colon: "p ! 1 = CHR '':''"
  from assms(2) obtain c0 c1 rest where p: "p = c0 # c1 # rest"
    by (cases p; cases "tl p") auto
  with colon have c1: "c1 = CHR '':''" by simp
  let ?body = "strings_ToLower_byte (hd p) @ drop 2 p"
  let ?r = "concat (map (\<lambda>a. if a = CHR ''/'' then ''//'' else [a])
              (map (\<lambda>a. if a = backslash then CHR ''/'' else a)
                (CHR ''/'' # filter (\<lambda>a. a \<noteq> CHR '':'') ?body)))"
  have "filter (\<lambda>a. a \<noteq> CHR '':'') (dropWhile (\<lambda>a. a \<noteq> CHR '':'') p)
      = filter (\<lambda>a. a \<noteq> CHR '':'') (drop 2 p)"
    by (simp add: p c1)
  then have "getSourceFolderFromWindows p = Some ?r"
    by (simp add: getSourceFolderFromWindows_eq p)
  with assms colon have "getSourceFolder x cfg runID = Some ?r"
    by (simp add: getSourceFolder_perRunPath)
  moreover have "CHR '':'' \<notin> set ?r" "backslash \<notin> set ?r" "take 2 ?r = ''//''"
    by (rule rewritten_props)+
  moreover have "?r ! 2 = (if (of_char (hd p) :: nat) \<le> 90
                            then char_of ((of_char (hd p) :: nat) + 32) else hd p)"
    if "isLetter (hd p)"
    using that by (rule rewritten_letter)
  ultimately show "\<exists>r. getSourceFolder x cfg runID = Some r
              \<and> r = ?r
              \<and> CHR '':'' \<notin> set r \<and> backslash \<notin> set r \<and> take 2 r = ''//''
              \<and> (isLetter (hd p) \<longrightarrow>
                   r ! 2 = (if (of_char (hd p) :: nat) \<le> 90
                            then char_of ((of_char (hd p) :: nat) + 32) else hd p))"
    by blast
qed

lemma windows_perRunPath:
  "perRunPath (hostDeps [backslash] noEnv) windowsConfig demoRunID =
     ''C:'' @ [backslash] @ ''Users'' @ [backslash] @ ''dev'' @ [backslash] @ ''.horusec''
       @ [backslash] @ ''1b9d6bcd-bbfd-4b2d-9b5d-ab8dfbbd4bed''"
  by (simp add: perRunPath_def hostDeps_def joinWith_def windowsConfig_def demoRunID_def)

lemma linux_perRunPath:
  "perRunPath (hostDeps ''/'' noEnv) linuxConfig demoRunID =
     ''/home/dev/app/.horusec/1b9d6bcd-bbfd-4b2d-9b5d-ab8dfbbd4bed''"
  by (simp add: perRunPath_def hostDeps_def joinWith_def linuxConfig_def demoRunID_def)

theorem getSourceFolder_drive_letter_rewrite_witness:
  "getSourceFolder (hostDeps [backslash] noEnv) windowsConfig demoRunID =
     Some ''//c//Users//dev//.horusec//1b9d6bcd-bbfd-4b2d-9b5d-ab8dfbbd4bed''
   \<and> getSourceFolder (hostDeps ''/'' noEnv) linuxConfig demoRunID =
     Some ''/home/dev/app/.horusec/1b9d6bcd-bbfd-4b2d-9b5d-ab8dfbbd4bed''"
proof
  have lower: "strings_ToLower_byte CHR ''C'' = ''c''"
    by code_simp
  have "isLetter CHR ''C''"
    by (simp add: isLetter_def)
  with getSourceFolder_drive_letter_rewrite [OF windows_perRunPath]
  show "getSourceFolder (hostDeps [backslash] noEnv) windowsConfig demoRunID =
     Some ''//c//Users//dev//.horusec//1b9d6bcd-bbfd-4b2d-9b5d-ab8dfbbd4bed''"
    by (simp add: lower backslash_def)
  from getSourceFolder_drive_letter_rewrite [OF linux_perRunPath]
  show "getSourceFolder (hostDeps ''/'' noEnv) linuxConfig demoRunID =
     Some ''/home/dev/app/.horusec/1b9d6bcd-bbfd-4b2d-9b5d-ab8dfbbd4bed''"
    by simp
qed

text \<open>
  C10: when the joined per-run path (the base, then \<open>.horusec\<close>, then the run identifier)
  does not have \<open>:\<close> as its second character, \<open>getSourceFolder\<close> returns the joined path
  itself, with no character changed.
\<close>

theorem getSourceFolder_verbatim:
  assumes "perRunPath x cfg runID = p" and "2 \<le> length p" and "p ! 1 \<noteq> CHR '':''"
  shows "getSourceFolder x cfg runID = Some p"
  using assms by (simp add: getSourceFolder_perRunPath)

lemma bind_perRunPath:
  "perRunPath (hostDeps ''/'' noEnv) bindConfig demoRunID =
     ''/builds/app/.horusec/1b9d6bcd-bbfd-4b2d-9b5d-ab8dfbbd4bed''"
  by (simp add: perRunPath_def hostDeps_def joinWith_def bindConfig_def demoRunID_def)

theorem getSourceFolder_verbatim_witness:
  "getSourceFolder (hostDeps ''/'' noEnv) bindConfig demoRunID =
     Some ''/builds/app/.horusec/1b9d6bcd-bbfd-4b2d-9b5d-ab8dfbbd4bed''"
  using getSourceFolder_verbatim [OF bind_perRunPath] by simp

section \<open>Pulling images: properties\<close>

lemma ReplaceAll_occurrence:
  assumes "old \<noteq> []" and "\<not> sublist old (pre @ butlast old)"
  shows "strings_ReplaceAll (pre @ old @ rest) old new = pre @ new @ strings_ReplaceAll rest old new"
  using assms(2)
proof (induction pre)
  case Nil
  from assms(1) show ?case
    by (subst strings_ReplaceAll.simps) simp
next
  case (Cons a pre)
  have no: "take (length old) (a # pre @ old @ rest) \<noteq> old"
  proof
    assume eq: "take (length old) (a # pre @ old @ rest) = old"
    define xs where "xs = a # pre @ butlast old"
    define ys where "ys = last old # rest"
    have split: "a # pre @ old @ rest = xs @ ys"
      using assms(1) by (simp add: xs_def ys_def)
    have "length old \<le> length xs"
      by (simp add: xs_def)
    then have "take (length old) (xs @ ys) = take (length old) xs"
      by simp
    with eq split have "take (length old) xs = old"
      by simp
    then have "prefix old (a # pre @ butlast old)"
      unfolding xs_def by (metis take_is_prefix)
    then have "sublist old (a # pre @ butlast old)"
      by (rule prefix_imp_sublist)
    with Cons.prems show False by simp
  qed
  from Cons.prems have "\<not> sublist old (pre @ butlast old)"
    by (auto simp add: sublist_Cons_right)
  then have IH: "strings_ReplaceAll (pre @ old @ rest) old new
      = pre @ new @ strings_ReplaceAll rest old new"
    by (rule Cons.IH)
  have "strings_ReplaceAll ((a # pre) @ old @ rest) old new
      = a # strings_ReplaceAll (pre @ old @ rest) old new"
    using assms(1) no by (subst strings_ReplaceAll.simps) simp
  with IH show ?case by simp
qed

lemma ReplaceAll_no_occurrence:
  assumes "old \<noteq> []" and "\<not> sublist old s"
  shows "strings_ReplaceAll s old new = s"
  using assms(2)
proof (induction s)
  case Nil
  from assms(1) show ?case by (rule ReplaceAll_Nil)
next
  case (Cons a s)
  have "take (length old) (a # s) \<noteq> old"
  proof
    assume "take (length old) (a # s) = old"
    then have "prefix old (a # s)" by (metis take_is_prefix)
    then have "sublist old (a # s)" by (rule prefix_imp_sublist)
    with Cons.prems show False by simp
  qed
  moreover from Cons.prems have "\<not> sublist old s"
    by (auto simp add: sublist_Cons_right)
  then have "strings_ReplaceAll s old new = s" by (rule Cons.IH)
  ultimately show ?case
    using assms(1) by (subst strings_ReplaceAll.simps) simp
qed

lemma invoke_fields [simp]:
  "calls (snd (invoke c m w)) = calls w @ [c]"
  "logs (snd (invoke c m w)) = logs w"
  "engine (snd (invoke c m w)) = snd (m (engine w))"
  "fst (invoke c m w) = fst (m (engine w))"
  by (simp_all add: invoke_def split: prod.splits)

lemma logger_call_fields [simp]:
  "calls (logger_call l m args err w) = calls w"
  "logs (logger_call l m args err w) = logs w @ [Log l m args err]"
  "engine (logger_call l m args err w) = engine w"
  by (simp_all add: logger_call_def)

lemma loggerAPIStatus_fields [simp]:
  "calls (loggerAPIStatus d m i w) = calls w"
  "engine (loggerAPIStatus d m i w) = engine w"
  "calls (loggerAPIStatusWithContainerID d m i c w) = calls w"
  "engine (loggerAPIStatusWithContainerID d m i c w) = engine w"
  by (simp_all add: loggerAPIStatus_def loggerAPIStatusWithContainerID_def)

lemma checkIfImageNotExists_run:
  assumes "ImageList (dockerClient d) (removeRegistry x ref) (engine w) = (res, s)"
  shows "fst (checkIfImageNotExists x d ref w) =
           (case res of Inl e \<Rightarrow> (False, Some e) | Inr result \<Rightarrow> (result = [], None))"
    and "calls (snd (checkIfImageNotExists x d ref w)) =
           calls w @ [Call_ImageList (removeRegistry x ref)]"
    and "engine (snd (checkIfImageNotExists x d ref w)) = s"
  using assms
  by (simp_all add: checkIfImageNotExists_def invoke_def Let_def split: sum.splits prod.splits)

lemma downloadImage_run:
  assumes "ImagePull (dockerClient d) ref (setPullOptions x) (engine w) = (res, s)"
  shows "fst (downloadImage x d ref w) =
           (case res of Inl e \<Rightarrow> Some e | Inr reader \<Rightarrow> read_error reader)"
    and "calls (snd (downloadImage x d ref w)) =
           calls w @ [Call_ImagePull ref (setPullOptions x)]"
    and "engine (snd (downloadImage x d ref w)) = s"
  using assms
  by (simp_all add: downloadImage_def readPullReader_def io_ReadAll_def invoke_def Let_def
      loggerAPIStatus_def logger_call_def
      split: sum.splits prod.splits option.splits)


lemma PullImage_unfold:
  "PullImage x d ref w =
     (if DisableDocker (config d) then (None, w)
      else
        let r = checkIfImageNotExists x d ref w in
        if snd (fst r) \<noteq> None then
          (snd (fst r),
           logger_call LogError MsgErrorFailedToPullImage [ref] (snd (fst r)) (snd r))
        else if fst (fst r) then
          let r' = downloadImage x d ref
                     (logger_call LogDebugWithLevel MsgDebugDockerImageDoesNotExists [ref] None (snd r))
          in (fst r', logger_call LogError MsgErrorFailedToPullImage [ref] (fst r') (snd r'))
        else (None, snd r))"
  by (simp add: PullImage_def Let_def split: prod.splits)

text \<open>
  C4: with container execution disabled \<open>PullImage\<close> succeeds and leaves the world as it
  was, so it makes no engine call. Otherwise, when the image listing returns at least one
  match, it succeeds and the listing is its only engine call; when the listing returns no
  match, its engine calls are the listing and then exactly one pull, of the reference as
  it was requested, and it returns what the pull and the reading of its stream returned.
\<close>

theorem PullImage_calls:
  "(DisableDocker (config d) \<longrightarrow> PullImage x d ref w = (None, w))
   \<and> (\<not> DisableDocker (config d)
        \<and> ImageList (dockerClient d) (removeRegistry x ref) (engine w) = (Inr result, s)
        \<and> result \<noteq> [] \<longrightarrow>
        fst (PullImage x d ref w) = None
        \<and> calls (snd (PullImage x d ref w)) = calls w @ [Call_ImageList (removeRegistry x ref)])
   \<and> (\<not> DisableDocker (config d)
        \<and> ImageList (dockerClient d) (removeRegistry x ref) (engine w) = (Inr [], s)
        \<and> ImagePull (dockerClient d) ref (setPullOptions x) s = (pulled, s') \<longrightarrow>
        fst (PullImage x d ref w) = (case pulled of Inl e \<Rightarrow> Some e | Inr reader \<Rightarrow> read_error reader)
        \<and> calls (snd (PullImage x d ref w)) =
            calls w @ [Call_ImageList (removeRegistry x ref), Call_ImagePull ref (setPullOptions x)])"
proof (intro conjI impI)
  assume "DisableDocker (config d)"
  then show "PullImage x d ref w = (None, w)"
    by (simp add: PullImage_def)
next
  assume a: "\<not> DisableDocker (config d)
        \<and> ImageList (dockerClient d) (removeRegistry x ref) (engine w) = (Inr result, s)
        \<and> result \<noteq> []"
  then have l: "ImageList (dockerClient d) (removeRegistry x ref) (engine w) = (Inr result, s)"
    by simp
  from a show "fst (PullImage x d ref w) = None"
    by (simp add: PullImage_unfold Let_def checkIfImageNotExists_run [OF l])
  from a show "calls (snd (PullImage x d ref w)) = calls w @ [Call_ImageList (removeRegistry x ref)]"
    by (simp add: PullImage_unfold Let_def checkIfImageNotExists_run [OF l])
next
  assume a: "\<not> DisableDocker (config d)
        \<and> ImageList (dockerClient d) (removeRegistry x ref) (engine w) = (Inr [], s)
        \<and> ImagePull (dockerClient d) ref (setPullOptions x) s = (pulled, s')"
  then have l: "ImageList (dockerClient d) (removeRegistry x ref) (engine w) = (Inr [], s)"
    by simp
  let ?w1 = "logger_call LogDebugWithLevel MsgDebugDockerImageDoesNotExists [ref] None
               (snd (checkIfImageNotExists x d ref w))"
  from a have p: "ImagePull (dockerClient d) ref (setPullOptions x) (engine ?w1) = (pulled, s')"
    by (simp add: checkIfImageNotExists_run [OF l])
  from a show "fst (PullImage x d ref w) =
      (case pulled of Inl e \<Rightarrow> Some e | Inr reader \<Rightarrow> read_error reader)"
    by (simp add: PullImage_unfold Let_def checkIfImageNotExists_run [OF l] downloadImage_run [OF p])
  from a show "calls (snd (PullImage x d ref w)) =
      calls w @ [Call_ImageList (removeRegistry x ref), Call_ImagePull ref (setPullOptions x)]"
    by (simp add: PullImage_unfold Let_def checkIfImageNotExists_run [OF l] downloadImage_run [OF p])
qed

text \<open>
  C8: when the image listing of the availability check fails, \<open>PullImage\<close> returns the
  error of the listing, and the listing is its only engine call: no pull is issued.
\<close>

theorem PullImage_check_failure:
  assumes "\<not> DisableDocker (config d)"
    and "ImageList (dockerClient d) (removeRegistry x ref) (engine w) = (Inl e, s)"
  shows "fst (PullImage x d ref w) = Some e
     \<and> calls (snd (PullImage x d ref w)) = calls w @ [Call_ImageList (removeRegistry x ref)]"
  using assms(1)
  by (simp add: PullImage_unfold Let_def checkIfImageNotExists_run [OF assms(2)])

lemma removeEach_calls:
  "calls (removeEach d containers w) =
     calls w @ map (\<lambda>c. Call_ContainerRemove (ID c) True) containers"
  by (induction containers arbitrary: w) (simp_all add: Let_def split: prod.splits,
      simp add: invoke_def split: prod.splits)


lemma demoAPI_simps [simp]:
  "config (demoAPI sc cfg) = cfg"
  "analysisID (demoAPI sc cfg) = demoRunID"
  "pathDestinyInContainer (demoAPI sc cfg) = ''/src''"
  "ContainerCreate (dockerClient (demoAPI sc cfg)) cf h nm n = (create_result sc, Suc n)"
  "ContainerStart (dockerClient (demoAPI sc cfg)) cid n = (start_result sc, Suc n)"
  "ContainerList (dockerClient (demoAPI sc cfg)) al f n = (list_result sc, Suc n)"
  "ContainerWait (dockerClient (demoAPI sc cfg)) cid cond n = (wait_result sc, Suc n)"
  "ContainerLogs (dockerClient (demoAPI sc cfg)) cid so n = (logs_result sc, Suc n)"
  "ContainerRemove (dockerClient (demoAPI sc cfg)) cid fo n = (remove_result sc, Suc n)"
  "ImageList (dockerClient (demoAPI sc cfg)) r n = (images_result sc, Suc n)"
  "ImagePull (dockerClient (demoAPI sc cfg)) r opts n = (pull_result sc, Suc n)"
  by (simp_all add: demoAPI_def New_def scriptedClient_def)

lemma demo_removeRegistry:
  "removeRegistry (hostDeps sep getenv) demoImage = ''horusec-go:v1.0.0''"
proof -
  have "strings_ReplaceAll ''docker.io/horuszup/horusec-go:v1.0.0'' ''docker.io/horuszup/'' []
      = ''horusec-go:v1.0.0''"
    by code_simp
  then show ?thesis
    by (simp add: removeRegistry_def hostDeps_def demoImage_def)
qed

lemma noEnv_setPullOptions:
  "setPullOptions (hostDeps sep noEnv) = \<lparr>RegistryAuth = []\<rparr>"
  by (simp add: setPullOptions_def env_GetEnvOrDefault_def hostDeps_def noEnv_def Let_def)

theorem PullImage_calls_witness:
  "PullImage (hostDeps ''/'' noEnv) (demoAPI cleanRun disabledConfig) demoImage world0
     = (None, world0)
   \<and> fst (PullImage (hostDeps ''/'' noEnv) (demoAPI cachedRun linuxConfig) demoImage world0) = None
   \<and> calls (snd (PullImage (hostDeps ''/'' noEnv) (demoAPI cachedRun linuxConfig) demoImage world0))
       = [Call_ImageList ''horusec-go:v1.0.0'']
   \<and> fst (PullImage (hostDeps ''/'' noEnv) (demoAPI cleanRun linuxConfig) demoImage world0) = None
   \<and> calls (snd (PullImage (hostDeps ''/'' noEnv) (demoAPI cleanRun linuxConfig) demoImage world0))
       = [Call_ImageList ''horusec-go:v1.0.0'',
          Call_ImagePull ''docker.io/horuszup/horusec-go:v1.0.0'' \<lparr>RegistryAuth = []\<rparr>]"
proof -
  have "DisableDocker (config (demoAPI cleanRun disabledConfig))"
    by (simp add: disabledConfig_def)
  with PullImage_calls [where d = "demoAPI cleanRun disabledConfig" and x = "hostDeps ''/'' noEnv"
      and ref = demoImage and w = world0]
  have a: "PullImage (hostDeps ''/'' noEnv) (demoAPI cleanRun disabledConfig) demoImage world0
     = (None, world0)"
    by blast
  have "\<not> DisableDocker (config (demoAPI cachedRun linuxConfig))
      \<and> ImageList (dockerClient (demoAPI cachedRun linuxConfig))
          (removeRegistry (hostDeps ''/'' noEnv) demoImage) (engine world0)
        = (Inr [''sha256:5b0bcabd1ed2''], Suc 0)
      \<and> [''sha256:5b0bcabd1ed2''] \<noteq> []"
    by (simp add: linuxConfig_def cachedRun_def cleanRun_def world0_def)
  with PullImage_calls [where d = "demoAPI cachedRun linuxConfig" and x = "hostDeps ''/'' noEnv"
      and ref = demoImage and w = world0 and result = "[''sha256:5b0bcabd1ed2'']" and s = "Suc 0"]
  have b: "fst (PullImage (hostDeps ''/'' noEnv) (demoAPI cachedRun linuxConfig) demoImage world0) = None
     \<and> calls (snd (PullImage (hostDeps ''/'' noEnv) (demoAPI cachedRun linuxConfig) demoImage world0))
       = [Call_ImageList ''horusec-go:v1.0.0'']"
    by (simp add: demo_removeRegistry world0_def)
  have "\<not> DisableDocker (config (demoAPI cleanRun linuxConfig))
      \<and> ImageList (dockerClient (demoAPI cleanRun linuxConfig))
          (removeRegistry (hostDeps ''/'' noEnv) demoImage) (engine world0)
        = (Inr [], Suc 0)
      \<and> ImagePull (dockerClient (demoAPI cleanRun linuxConfig)) demoImage
          (setPullOptions (hostDeps ''/'' noEnv)) (Suc 0)
        = (Inr \<lparr>content = ''done'', read_error = None\<rparr>, Suc (Suc 0))"
    by (simp add: linuxConfig_def cleanRun_def world0_def)
  with PullImage_calls [where d = "demoAPI cleanRun linuxConfig" and x = "hostDeps ''/'' noEnv"
      and ref = demoImage and w = world0 and s = "Suc 0"
      and pulled = "Inr \<lparr>content = ''done'', read_error = None\<rparr>" and s' = "Suc (Suc 0)"]
  have c: "fst (PullImage (hostDeps ''/'' noEnv) (demoAPI cleanRun linuxConfig) demoImage world0) = None
     \<and> calls (snd (PullImage (hostDeps ''/'' noEnv) (demoAPI cleanRun linuxConfig) demoImage world0))
       = [Call_ImageList ''horusec-go:v1.0.0'',
          Call_ImagePull ''docker.io/horuszup/horusec-go:v1.0.0'' \<lparr>RegistryAuth = []\<rparr>]"
    by (simp add: demo_removeRegistry [unfolded demoImage_def] noEnv_setPullOptions world0_def
        demoImage_def)
  from a b c show ?thesis by blast
qed

theorem PullImage_check_failure_witness:
  "fst (PullImage (hostDeps ''/'' noEnv) (demoAPI listFails linuxConfig) demoImage world0)
     = Some (EngineError ''connection refused'')
   \<and> calls (snd (PullImage (hostDeps ''/'' noEnv) (demoAPI listFails linuxConfig) demoImage world0))
     = [Call_ImageList ''horusec-go:v1.0.0'']"
proof -
  have 1: "\<not> DisableDocker (config (demoAPI listFails linuxConfig))"
    by (simp add: linuxConfig_def)
  have 2: "ImageList (dockerClient (demoAPI listFails linuxConfig))
          (removeRegistry (hostDeps ''/'' noEnv) demoImage) (engine world0)
        = (Inl (EngineError ''connection refused''), Suc 0)"
    by (simp add: listFails_def cleanRun_def world0_def)
  from PullImage_check_failure [OF 1 2] show ?thesis
    by (simp add: demo_removeRegistry world0_def)
qed




text \<open>
  What the availability check does, for every engine: it lists the images once, with the
  filter that \<open>removeRegistry\<close> computes, returns true exactly when the engine reports no
  matching image, and returns false with the engine's error when the listing fails.
\<close>

lemma checkIfImageNotExists_listing:
  assumes "ImageList (dockerClient d) (removeRegistry x ref) (engine w) = (res, s)"
  shows "calls (snd (checkIfImageNotExists x d ref w)) =
           calls w @ [Call_ImageList (removeRegistry x ref)]
     \<and> fst (checkIfImageNotExists x d ref w) =
           (case res of Inl e \<Rightarrow> (False, Some e) | Inr result \<Rightarrow> (length result = 0, None))"
proof
  show "calls (snd (checkIfImageNotExists x d ref w)) =
           calls w @ [Call_ImageList (removeRegistry x ref)]"
    using assms by (rule checkIfImageNotExists_run)
  show "fst (checkIfImageNotExists x d ref w) =
           (case res of Inl e \<Rightarrow> (False, Some e) | Inr result \<Rightarrow> (length result = 0, None))"
    using checkIfImageNotExists_run(1) [OF assms] by (simp split: sum.splits)
qed

text \<open>
  On a reference that starts with the default-registry qualifier (the default registry
  followed by a slash) and has no other occurrence of it, \<open>removeRegistry\<close> strips
  exactly that prefix; a reference without an occurrence is passed as it is.
\<close>

lemma removeRegistry_leading:
  assumes "\<not> sublist (images_DefaultRegistry x @ ''/'') rest"
  shows "removeRegistry x ((images_DefaultRegistry x @ ''/'') @ rest) = rest"
    and "removeRegistry x rest = rest"
proof -
  show plain: "removeRegistry x rest = rest"
    using assms by (simp add: removeRegistry_def ReplaceAll_no_occurrence)
  have "strings_ReplaceAll ((images_DefaultRegistry x @ ''/'') @ rest)
          (images_DefaultRegistry x @ ''/'') []
        = strings_ReplaceAll rest (images_DefaultRegistry x @ ''/'') []"
    by (subst strings_ReplaceAll.simps) simp
  with plain show "removeRegistry x ((images_DefaultRegistry x @ ''/'') @ rest) = rest"
    by (simp add: removeRegistry_def)
qed

lemma mirror_removeRegistry:
  "removeRegistry (hostDeps sep getenv) mirrorImage = ''mirror.example.org/horusec-go:v1.0.0''"
proof -
  have "strings_ReplaceAll ''mirror.example.org/docker.io/horuszup/horusec-go:v1.0.0''
      ''docker.io/horuszup/'' [] = ''mirror.example.org/horusec-go:v1.0.0''"
    by code_simp
  then show ?thesis
    by (simp add: removeRegistry_def hostDeps_def mirrorImage_def)
qed

text \<open>
  C3 asks that the image list is filtered by the reference with a leading
  default-registry qualifier stripped and the rest of the reference left intact.
  \<open>removeRegistry\<close> replaces every occurrence of the qualifier instead of the prefix.
  For a reference that names the default registry behind a mirror the qualifier is cut out
  of the middle, where stripping a prefix leaves the reference as it is: the check asks
  the engine about another image than the one requested. With only that other image in
  the cache, \<open>PullImage\<close> reports success after the listing and never pulls the image it
  was asked for.
\<close>

theorem checkIfImageNotExists_cuts_inner_registry:
  "calls (snd (checkIfImageNotExists (hostDeps ''/'' noEnv) (demoAPI cleanRun linuxConfig)
                 mirrorImage world0))
     = [Call_ImageList ''mirror.example.org/horusec-go:v1.0.0'']
   \<and> stripLeadingRegistry (images_DefaultRegistry (hostDeps ''/'' noEnv)) mirrorImage
     = ''mirror.example.org/docker.io/horuszup/horusec-go:v1.0.0''
   \<and> fst (PullImage (hostDeps ''/'' noEnv) (demoAPI cachedRun linuxConfig) mirrorImage world0)
     = None
   \<and> calls (snd (PullImage (hostDeps ''/'' noEnv) (demoAPI cachedRun linuxConfig)
                 mirrorImage world0))
     = [Call_ImageList ''mirror.example.org/horusec-go:v1.0.0'']"
proof (intro conjI)
  show "calls (snd (checkIfImageNotExists (hostDeps ''/'' noEnv) (demoAPI cleanRun linuxConfig)
                 mirrorImage world0))
     = [Call_ImageList ''mirror.example.org/horusec-go:v1.0.0'']"
    by (simp add: checkIfImageNotExists_def invoke_def Let_def mirror_removeRegistry world0_def
        split: sum.splits prod.splits)
  show "stripLeadingRegistry (images_DefaultRegistry (hostDeps ''/'' noEnv)) mirrorImage
     = ''mirror.example.org/docker.io/horuszup/horusec-go:v1.0.0''"
    by (simp add: stripLeadingRegistry_def hostDeps_def mirrorImage_def)
  have listed: "ImageList (dockerClient (demoAPI cachedRun linuxConfig))
      (removeRegistry (hostDeps ''/'' noEnv) mirrorImage) (engine world0)
    = (Inr [''sha256:5b0bcabd1ed2''], Suc 0)"
    by (simp add: cachedRun_def cleanRun_def world0_def)
  have enabled: "\<not> DisableDocker (config (demoAPI cachedRun linuxConfig))"
    by (simp add: linuxConfig_def)
  show "fst (PullImage (hostDeps ''/'' noEnv) (demoAPI cachedRun linuxConfig) mirrorImage world0)
     = None"
    using enabled
    by (simp add: PullImage_unfold Let_def checkIfImageNotExists_run [OF listed])
  have "calls (snd (PullImage (hostDeps ''/'' noEnv) (demoAPI cachedRun linuxConfig)
                 mirrorImage world0))
     = calls world0 @ [Call_ImageList (removeRegistry (hostDeps ''/'' noEnv) mirrorImage)]"
    using enabled
    by (simp add: PullImage_unfold Let_def checkIfImageNotExists_run [OF listed])
  then show "calls (snd (PullImage (hostDeps ''/'' noEnv) (demoAPI cachedRun linuxConfig)
                 mirrorImage world0))
     = [Call_ImageList ''mirror.example.org/horusec-go:v1.0.0'']"
    by (simp add: mirror_removeRegistry world0_def)
qed

section \<open>Cleaning up a run: properties\<close>

text \<open>
  C9: when the listing of the containers of the run fails, \<open>DeleteContainersFromAPI\<close>
  logs the error and returns; the listing is its only engine call, so no removal is
  attempted, and it has no result in which an error could reach the caller. When the
  listing succeeds, the removals attempted are those of the containers listed, one each,
  in the order of the list.
\<close>

theorem DeleteContainersFromAPI_calls:
  "(ContainerList (dockerClient d) True (analysisID d) (engine w) = (Inl e, s) \<longrightarrow>
      DeleteContainersFromAPI d w =
        w\<lparr>engine := s, calls := calls w @ [Call_ContainerList True (analysisID d)],
          logs := logs w @ [Log LogErrorWithLevel MsgErrorDockerListAllContainers [] (Some e)]\<rparr>)
   \<and> (ContainerList (dockerClient d) True (analysisID d) (engine w) = (Inr containers, s) \<longrightarrow>
      calls (DeleteContainersFromAPI d w) =
        calls w @ Call_ContainerList True (analysisID d)
          # map (\<lambda>c. Call_ContainerRemove (ID c) True) containers)"
  by (simp add: DeleteContainersFromAPI_def listContainersByAnalysisID_def invoke_def
      logger_call_def removeEach_calls Let_def)

theorem DeleteContainersFromAPI_calls_witness:
  "DeleteContainersFromAPI (demoAPI listFails linuxConfig) world0 =
     \<lparr>engine = Suc 0,
      calls = [Call_ContainerList True ''1b9d6bcd-bbfd-4b2d-9b5d-ab8dfbbd4bed''],
      logs = [Log LogErrorWithLevel MsgErrorDockerListAllContainers []
                (Some (EngineError ''connection refused''))]\<rparr>
   \<and> calls (DeleteContainersFromAPI (demoAPI cleanRun linuxConfig) world0) =
     [Call_ContainerList True ''1b9d6bcd-bbfd-4b2d-9b5d-ab8dfbbd4bed'',
      Call_ContainerRemove ''c0ffee'' True, Call_ContainerRemove ''decaf'' True]"
proof
  have "ContainerList (dockerClient (demoAPI listFails linuxConfig)) True
      (analysisID (demoAPI listFails linuxConfig)) (engine world0)
    = (Inl (EngineError ''connection refused''), Suc 0)"
    by (simp add: listFails_def cleanRun_def world0_def)
  with DeleteContainersFromAPI_calls [where d = "demoAPI listFails linuxConfig" and w = world0
      and e = "EngineError ''connection refused''" and s = "Suc 0"]
  show "DeleteContainersFromAPI (demoAPI listFails linuxConfig) world0 =
     \<lparr>engine = Suc 0,
      calls = [Call_ContainerList True ''1b9d6bcd-bbfd-4b2d-9b5d-ab8dfbbd4bed''],
      logs = [Log LogErrorWithLevel MsgErrorDockerListAllContainers []
                (Some (EngineError ''connection refused''))]\<rparr>"
    by (simp add: world0_def demoRunID_def)
  have "ContainerList (dockerClient (demoAPI cleanRun linuxConfig)) True
      (analysisID (demoAPI cleanRun linuxConfig)) (engine world0)
    = (Inr [\<lparr>ID = ''c0ffee''\<rparr>, \<lparr>ID = ''decaf''\<rparr>], Suc 0)"
    by (simp add: cleanRun_def world0_def)
  with DeleteContainersFromAPI_calls [where d = "demoAPI cleanRun linuxConfig" and w = world0
      and containers = "[\<lparr>ID = ''c0ffee''\<rparr>, \<lparr>ID = ''decaf''\<rparr>]" and s = "Suc 0"]
  show "calls (DeleteContainersFromAPI (demoAPI cleanRun linuxConfig) world0) =
     [Call_ContainerList True ''1b9d6bcd-bbfd-4b2d-9b5d-ab8dfbbd4bed'',
      Call_ContainerRemove ''c0ffee'' True, Call_ContainerRemove ''decaf'' True]"
    by (simp add: world0_def demoRunID_def)
qed

section \<open>Running one container: properties\<close>

lemma createContainer_returns:
  assumes "createContainer x d imageNameWithTag cmd w = Returns ((containerID, err), w1)"
  shows "(err \<noteq> None \<longrightarrow> containerID = [])
     \<and> (err = None \<longrightarrow>
          (\<exists>cfg host name. calls w1 =
             calls w @ [Call_ContainerCreate cfg host name, Call_ContainerStart containerID]))"
  using assms
  by (auto simp add: createContainer_def getImageID_def invoke_def Let_def logger_call_def
      loggerAPIStatusWithContainerID_def
      split: option.splits prod.splits sum.splits if_splits)

lemma readOutputAsString_error: "readOutputAsString r = (out, Some e) \<Longrightarrow> out = []"
  by (simp add: readOutputAsString_def io_ReadAll_def split: if_splits)

lemma readContainer_error:
  assumes "readContainer d containerID w = Returns ((out, Some e), w')"
  shows "out = []"
  using assms
  by (auto simp add: readContainer_def invoke_def Let_def
      split: option.splits prod.splits sum.splits dest: readOutputAsString_error)

lemma readContainer_wait_error:
  assumes "ContainerWait (dockerClient d) containerID [] (engine w) = (Some waited, s)"
    and "Error waited = Some m"
  shows "readContainer d containerID w =
     Returns (([], Some (errors_New (''Error on wait container '' @ containerID @ '': '' @ m
                 @ '' | Exited with status '' @ strconv_Itoa (sint (StatusCode waited))))),
              w\<lparr>engine := s, calls := calls w @ [Call_ContainerWait containerID []]\<rparr>)"
  using assms by (simp add: readContainer_def invoke_def Let_def)

lemma readContainer_calls:
  assumes "readContainer d containerID w = Returns (r, w')"
  shows "calls w' = calls w @ [Call_ContainerWait containerID []]
       \<or> calls w' = calls w @ [Call_ContainerWait containerID [], Call_ContainerLogs containerID True]"
  using assms
  by (auto simp add: readContainer_def invoke_def Let_def
      split: option.splits prod.splits sum.splits)

lemma executeCRDContainer_error:
  assumes "executeCRDContainer x d imageNameWithTag cmd w = Returns ((out, Some e), w')"
  shows "out = []"
  using assms
  by (auto simp add: executeCRDContainer_def Let_def
      split: outcome.splits prod.splits if_splits)

text \<open>
  C7: whenever \<open>CreateLanguageAnalysisContainer\<close> returns an error, be it from the
  validation, the creation, the start, the wait, the opening of the logs or their
  reading, the output returned with it is the empty string.
\<close>

theorem CreateLanguageAnalysisContainer_error_empty_output:
  assumes "CreateLanguageAnalysisContainer x d data w = Returns ((out, Some e), w')"
  shows "out = []"
  using assms
  by (auto simp add: CreateLanguageAnalysisContainer_def logStatusAndExecuteCRDContainer_def
      Let_def split: outcome.splits prod.splits if_splits)

text \<open>What executeCRDContainer does after a container was created and started.\<close>

lemma executeCRDContainer_read_error:
  assumes "createContainer x d imageNameWithTag cmd w = Returns ((containerID, None), w1)"
    and "readContainer d containerID
           (loggerAPIStatusWithContainerID d MsgDebugDockerAPIContainerWait imageNameWithTag containerID w1)
         = Returns ((out, Some e), w2)"
  shows "executeCRDContainer x d imageNameWithTag cmd w = Returns (([], Some e), w2)"
  using assms by (simp add: executeCRDContainer_def Let_def)

lemma executeCRDContainer_read_ok:
  assumes "createContainer x d imageNameWithTag cmd w = Returns ((containerID, None), w1)"
    and "readContainer d containerID
           (loggerAPIStatusWithContainerID d MsgDebugDockerAPIContainerWait imageNameWithTag containerID w1)
         = Returns ((out, None), w2)"
  shows "\<exists>w3. executeCRDContainer x d imageNameWithTag cmd w = Returns ((out, None), w3)
     \<and> calls w3 = calls w2 @ [Call_ContainerRemove containerID True]"
  using assms
  by (simp add: executeCRDContainer_def Let_def removeContainer_def invoke_def
      loggerAPIStatus_def logger_call_def split: prod.splits)

text \<open>
  C6: when the container was created and started and the wait result reports an error,
  the invocation returns the error whose text is made of the container ID, the reported
  message and the exit status in decimal, so the text contains the container ID and the
  exit status; the engine calls of the invocation are the creation, the start and the
  wait, and no reading of the logs.
\<close>

theorem CreateLanguageAnalysisContainer_wait_error:
  assumes "\<not> IsInvalid data"
    and "createContainer x d (GetCustomOrDefaultImage data) (replaceCMDAnalysisID d (CMD data)) w
           = Returns ((containerID, None), w1)"
    and "ContainerWait (dockerClient d) containerID [] (engine w1) = (Some waited, s)"
    and "Error waited = Some m"
    and "message = ''Error on wait container '' @ containerID @ '': '' @ m
           @ '' | Exited with status '' @ strconv_Itoa (sint (StatusCode waited))"
  shows "\<exists>w'. CreateLanguageAnalysisContainer x d data w
            = Returns (([], Some (errors_New message)), w')
     \<and> sublist containerID (error_text (errors_New message))
     \<and> sublist (strconv_Itoa (sint (StatusCode waited))) (error_text (errors_New message))
     \<and> (\<exists>cfg host name. calls w' = calls w @
           [Call_ContainerCreate cfg host name, Call_ContainerStart containerID,
            Call_ContainerWait containerID []])"
proof -
  let ?image = "GetCustomOrDefaultImage data"
  let ?cmd = "replaceCMDAnalysisID d (CMD data)"
  let ?w1 = "loggerAPIStatusWithContainerID d MsgDebugDockerAPIContainerWait ?image containerID w1"
  let ?w2 = "?w1\<lparr>engine := s, calls := calls ?w1 @ [Call_ContainerWait containerID []]\<rparr>"
  from assms(3) have "ContainerWait (dockerClient d) containerID [] (engine ?w1) = (Some waited, s)"
    by simp
  then have "readContainer d containerID ?w1 =
      Returns (([], Some (errors_New (''Error on wait container '' @ containerID @ '': '' @ m
                 @ '' | Exited with status '' @ strconv_Itoa (sint (StatusCode waited))))), ?w2)"
    using assms(4) by (rule readContainer_wait_error)
  with assms(5) have rd: "readContainer d containerID ?w1
      = Returns (([], Some (errors_New message)), ?w2)"
    by simp
  have ex: "executeCRDContainer x d ?image ?cmd w = Returns (([], Some (errors_New message)), ?w2)"
    using assms(2) rd by (rule executeCRDContainer_read_error)
  let ?w3 = "loggerAPIStatus d MsgDebugDockerAPIFinishedError ?image ?w2"
  from assms(1) ex
  have top: "CreateLanguageAnalysisContainer x d data w
      = Returns (([], Some (errors_New message)), ?w3)"
    by (simp add: CreateLanguageAnalysisContainer_def logStatusAndExecuteCRDContainer_def)
  from createContainer_returns [OF assms(2)]
  obtain cfg host name where
    "calls w1 = calls w @ [Call_ContainerCreate cfg host name, Call_ContainerStart containerID]"
    by auto
  then have c: "calls ?w3 = calls w @
           [Call_ContainerCreate cfg host name, Call_ContainerStart containerID,
            Call_ContainerWait containerID []]"
    by simp
  have s1: "sublist containerID message"
    unfolding assms(5) by (rule sublist_appendI)
  have "sublist (strconv_Itoa (sint (StatusCode waited)))
      ((''Error on wait container '' @ containerID @ '': '' @ m @ '' | Exited with status '')
        @ strconv_Itoa (sint (StatusCode waited)))"
    by (rule sublist_append_leftI)
  then have s2: "sublist (strconv_Itoa (sint (StatusCode waited))) message"
    by (simp add: assms(5))
  from top c s1 s2 show ?thesis
    by (intro exI [of _ ?w3]) auto
qed

lemma executeCRDContainer_read_error_calls:
  assumes "createContainer x d imageNameWithTag cmd w = Returns ((containerID, None), w1)"
    and "readContainer d containerID
           (loggerAPIStatusWithContainerID d MsgDebugDockerAPIContainerWait imageNameWithTag containerID w1)
         = Returns ((out, Some e), w2)"
  shows "\<exists>w'. executeCRDContainer x d imageNameWithTag cmd w = Returns (([], Some e), w')
     \<and> (calls w' = calls w1 @ [Call_ContainerWait containerID []]
        \<or> calls w' = calls w1 @ [Call_ContainerWait containerID [],
                                   Call_ContainerLogs containerID True])"
  using executeCRDContainer_read_error [OF assms] readContainer_calls [OF assms(2)]
  by simp

theorem CreateLanguageAnalysisContainer_wait_error_witness:
  "result_of (CreateLanguageAnalysisContainer (hostDeps ''/'' noEnv)
                (demoAPI waitFails linuxConfig) demoData world0)
     = Some ([], Some (errors_New
         ''Error on wait container c0ffee: OOMKilled | Exited with status 137''))
   \<and> sublist ''c0ffee'' ''Error on wait container c0ffee: OOMKilled | Exited with status 137''
   \<and> sublist ''137'' ''Error on wait container c0ffee: OOMKilled | Exited with status 137''"
proof -
  let ?x = "hostDeps ''/'' noEnv :: nat Deps"
  let ?d = "demoAPI waitFails linuxConfig"
  have valid: "\<not> IsInvalid demoData"
    by (simp add: IsInvalid_def demoData_def)
  have "result_of (createContainer ?x ?d (GetCustomOrDefaultImage demoData)
          (replaceCMDAnalysisID ?d (CMD demoData)) world0) = Some (''c0ffee'', None)"
    by code_simp
  then obtain w1 where created: "createContainer ?x ?d (GetCustomOrDefaultImage demoData)
          (replaceCMDAnalysisID ?d (CMD demoData)) world0 = Returns ((''c0ffee'', None), w1)"
    by (cases "createContainer ?x ?d (GetCustomOrDefaultImage demoData)
          (replaceCMDAnalysisID ?d (CMD demoData)) world0") (auto simp add: result_of_def)
  have waited: "ContainerWait (dockerClient ?d) ''c0ffee'' [] (engine w1)
      = (Some \<lparr>Error = Some ''OOMKilled'', StatusCode = 137\<rparr>, Suc (engine w1))"
    by (simp add: waitFails_def cleanRun_def)
  have reported: "Error \<lparr>Error = Some ''OOMKilled'', StatusCode = 137\<rparr> = Some ''OOMKilled''"
    by simp
  have status: "strconv_Itoa (sint (137 :: 64 word)) = ''137''" "strconv_Itoa 137 = ''137''"
    by code_simp+
  have message: "''Error on wait container c0ffee: OOMKilled | Exited with status 137''
      = ''Error on wait container '' @ ''c0ffee'' @ '': '' @ ''OOMKilled''
          @ '' | Exited with status ''
          @ strconv_Itoa (sint (StatusCode \<lparr>Error = Some ''OOMKilled'', StatusCode = 137\<rparr>))"
    by (simp add: status)
  from CreateLanguageAnalysisContainer_wait_error [OF valid created waited reported message]
  show ?thesis
    by (auto simp add: result_of_def status)
qed

theorem CreateLanguageAnalysisContainer_error_empty_output_witness:
  "result_of (CreateLanguageAnalysisContainer (hostDeps ''/'' noEnv)
                (demoAPI logReadFails linuxConfig) demoData world0)
     = Some ([], Some (EngineError ''unexpected EOF''))"
proof -
  let ?run = "CreateLanguageAnalysisContainer (hostDeps ''/'' noEnv)
                (demoAPI logReadFails linuxConfig) demoData world0"
  have "map_option snd (result_of ?run) = Some (Some (EngineError ''unexpected EOF''))"
    by code_simp
  then obtain out w' where
    run: "?run = Returns ((out, Some (EngineError ''unexpected EOF'')), w')"
    by (cases ?run) (auto simp add: result_of_def)
  from CreateLanguageAnalysisContainer_error_empty_output [OF run] have "out = []" .
  with run show ?thesis
    by (simp add: result_of_def)
qed

text \<open>
  C1 asks that a container that reached the start step is force-removed before the
  invocation returns, whether or not the wait and the reading of the logs succeeded.
  \<open>executeCRDContainer\<close> returns before the removal when the reading reports an error:
  after a wait error, after a failed reading of the logs and after a failed start the
  engine has seen no \<open>ContainerRemove\<close>; only the clean run ends with one.
\<close>

theorem CreateLanguageAnalysisContainer_removal_skipped_on_error:
  "map_option (map called) (calls_of (CreateLanguageAnalysisContainer (hostDeps ''/'' noEnv)
      (demoAPI waitFails linuxConfig) demoData world0))
     = Some [''ContainerCreate'', ''ContainerStart'', ''ContainerWait'']
   \<and> map_option (map called) (calls_of (CreateLanguageAnalysisContainer (hostDeps ''/'' noEnv)
      (demoAPI logReadFails linuxConfig) demoData world0))
     = Some [''ContainerCreate'', ''ContainerStart'', ''ContainerWait'', ''ContainerLogs'']
   \<and> map_option (map called) (calls_of (CreateLanguageAnalysisContainer (hostDeps ''/'' noEnv)
      (demoAPI startFails linuxConfig) demoData world0))
     = Some [''ContainerCreate'', ''ContainerStart'']
   \<and> map_option (map called) (calls_of (CreateLanguageAnalysisContainer (hostDeps ''/'' noEnv)
      (demoAPI cleanRun linuxConfig) demoData world0))
     = Some [''ContainerCreate'', ''ContainerStart'', ''ContainerWait'', ''ContainerLogs'',
             ''ContainerRemove'']"
proof (intro conjI)
  show "map_option (map called) (calls_of (CreateLanguageAnalysisContainer (hostDeps ''/'' noEnv)
      (demoAPI waitFails linuxConfig) demoData world0))
     = Some [''ContainerCreate'', ''ContainerStart'', ''ContainerWait'']"
    by code_simp
  show "map_option (map called) (calls_of (CreateLanguageAnalysisContainer (hostDeps ''/'' noEnv)
      (demoAPI logReadFails linuxConfig) demoData world0))
     = Some [''ContainerCreate'', ''ContainerStart'', ''ContainerWait'', ''ContainerLogs'']"
    by code_simp
  show "map_option (map called) (calls_of (CreateLanguageAnalysisContainer (hostDeps ''/'' noEnv)
      (demoAPI startFails linuxConfig) demoData world0))
     = Some [''ContainerCreate'', ''ContainerStart'']"
    by code_simp
  show "map_option (map called) (calls_of (CreateLanguageAnalysisContainer (hostDeps ''/'' noEnv)
      (demoAPI cleanRun linuxConfig) demoData world0))
     = Some [''ContainerCreate'', ''ContainerStart'', ''ContainerWait'', ''ContainerLogs'',
             ''ContainerRemove'']"
    by code_simp
qed

end
